theory Spec2Isabelle
  imports Main
begin

section \<open>Values and records of the workshop notebooks\<close>

text \<open>
  The notebooks build their records as Python dict literals whose values are integers,
  strings and timezone-aware datetimes. A dict keeps the insertion order of its keys, so
  a record is an association list; \<open>map_of\<close> is the lookup \<open>d[k]\<close> / \<open>d.get(k)\<close>.
  Every datetime of the notebooks is in UTC, so the timezone is not a field.
\<close>

datatype datetime =
  Datetime (year: int) (month: int) (day: int)
           (hour: int) (minute: int) (second: int) (microsecond: int)

datatype pyval = PInt int | PStr string | PDatetime datetime

type_synonym pydict = "(string \<times> pyval) list"

datatype py_error = ValueError | IndexError

section \<open>The incremental-loading notebook: the \<open>person\<close> generator\<close>

text \<open>
  \<^verbatim>\<open>n_users = 10\<close>
\<close>

definition n_users :: int where
  "n_users = 10"

text \<open>
  The hints the notebook applies to the resource:
  \<^verbatim>\<open>person.apply_hints(incremental=dlt.sources.incremental("updated_at"))\<close> and
  \<^verbatim>\<open>person.apply_hints(primary_key="id")\<close>.
\<close>

definition cursor_path :: string where
  "cursor_path = ''updated_at''"

definition primary_key :: string where
  "primary_key = ''id''"

text \<open>
  Python's \<open>range(n)\<close>: the integers \<open>0, ..., n - 1\<close>, empty when \<open>n \<le> 0\<close>.
\<close>

definition range_py :: "int \<Rightarrow> int list" where
  "range_py n = [0..n - 1]"

text \<open>
  What the generator reads from outside itself: the random sample, the fake name, the
  random index behind \<open>secrets.choice\<close> and the clock. Each reading made inside the loop is
  indexed by the loop variable (\<open>pid\<close> here) of the iteration that makes it. Nothing is
  assumed about any of them.
\<close>

record runtime =
  sample_result :: "int list \<Rightarrow> int \<Rightarrow> int list"
  fake_name :: "int \<Rightarrow> string"
  randbelow :: "int \<Rightarrow> nat \<Rightarrow> nat"
  now_utc :: "int \<Rightarrow> datetime"

text \<open>
  \<open>random.sample(population, k)\<close> raises \<open>ValueError\<close> unless \<open>0 \<le> k \<le> len(population)\<close>.
\<close>

definition sample :: "runtime \<Rightarrow> int list \<Rightarrow> int \<Rightarrow> py_error + int list" where
  "sample rt population k =
     (if 0 \<le> k \<and> k \<le> int (length population)
      then Inr (sample_result rt population k)
      else Inl ValueError)"

text \<open>
  \<open>secrets.choice(seq)\<close> raises \<open>IndexError\<close> on an empty sequence and otherwise returns
  the element at a random index below \<open>len(seq)\<close>.
\<close>

definition choice :: "runtime \<Rightarrow> int \<Rightarrow> string list \<Rightarrow> py_error + string" where
  "choice rt i seq =
     (if seq = [] then Inl IndexError
      else Inr (seq ! (randbelow rt i (length seq) mod length seq)))"

text \<open>
  The dict literal of one iteration of the loop:
  \<^verbatim>\<open>
  yield {
      "id": _id,
      "name": fake.name(),
      "country": choice(["USA", "China", "Poland"]),
      "updated_at": datetime.now(UTC)
      if _id in ids_to_update
      else datetime(2024, 1, 1, 0, 0, 0, 0, UTC),
  }
  \<close>
\<close>

definition person_record :: "runtime \<Rightarrow> int list \<Rightarrow> int \<Rightarrow> py_error + pydict" where
  "person_record rt ids_to_update pid =
     (case choice rt pid [''USA'', ''China'', ''Poland''] of
        Inl e \<Rightarrow> Inl e
      | Inr country \<Rightarrow>
          Inr [(''id'', PInt pid),
               (''name'', PStr (fake_name rt pid)),
               (''country'', PStr country),
               (''updated_at'',
                  PDatetime (if pid \<in> set ids_to_update then now_utc rt pid
                             else Datetime 2024 1 1 0 0 0 0))])"

text \<open>
  \<^verbatim>\<open>for _id in ids: yield {...}\<close>. The result is the list of the records yielded; an
  exception raised in an iteration ends the generator and is the result.
\<close>

fun person_loop :: "runtime \<Rightarrow> int list \<Rightarrow> int list \<Rightarrow> py_error + pydict list" where
  "person_loop rt ids_to_update [] = Inr []"
| "person_loop rt ids_to_update (pid # ids) =
     (case person_record rt ids_to_update pid of
        Inl e \<Rightarrow> Inl e
      | Inr r \<Rightarrow>
          (case person_loop rt ids_to_update ids of
             Inl e \<Rightarrow> Inl e
           | Inr rs \<Rightarrow> Inr (r # rs)))"

text \<open>
  \<^verbatim>\<open>
  def person():
      ids = range(n_users)
      # Simulate updating two random rows.
      ids_to_update = sample(ids, 2)
      for _id in ids:
          yield {...}
  \<close>
  The notebook defines this generator four times with the same body.
\<close>

definition person :: "runtime \<Rightarrow> py_error + pydict list" where
  "person rt =
     (let ids = range_py n_users in
      case sample rt ids 2 of
        Inl e \<Rightarrow> Inl e
      | Inr ids_to_update \<Rightarrow> person_loop rt ids_to_update ids)"

section \<open>The configuration notebook: the \<open>people\<close> resource with a secret\<close>

text \<open>
  \<^verbatim>\<open>
  @dlt.resource(table_name="person")
  def people(secret_country: str = dlt.secrets.value):
      yield [
          {"id": "1", "name": "Warren Buffet", "country": "USA"},
          {"id": "2", "name": "Jack Ma", "country": "China"},
          {"id": "3", "name": "Rafal Brzoska", "country": secret_country},
      ]
  \<close>
  The generator yields once, and what it yields is the list of the three records. The
  value of \<open>secret_country\<close> is injected by the framework; here it is the argument.
\<close>

definition people :: "string \<Rightarrow> pydict list list" where
  "people secret_country =
     [[[(''id'', PStr ''1''), (''name'', PStr ''Warren Buffet''), (''country'', PStr ''USA'')],
       [(''id'', PStr ''2''), (''name'', PStr ''Jack Ma''), (''country'', PStr ''China'')],
       [(''id'', PStr ''3''), (''name'', PStr ''Rafal Brzoska''),
        (''country'', PStr secret_country)]]]"

text \<open>
  The vault preview of the same notebook:
  \<^verbatim>\<open>
  def get_secret_from_gcsm(secret_name: str):
      return f"{secret_name}'s secret_value"

  def people(secret_country: str | None = None):
      secret_country = secret_country or get_secret_from_gcsm("secret_country")
      yield [...]
  \<close>
  Python's \<open>or\<close> takes the right operand when the left one is \<open>None\<close> or the empty string.
\<close>

definition get_secret_from_gcsm :: "string \<Rightarrow> string" where
  "get_secret_from_gcsm secret_name = secret_name @ [CHR 0x27] @ ''s secret_value''"

definition people_gcsm :: "string option \<Rightarrow> pydict list list" where
  "people_gcsm secret_country =
     people (case secret_country of
               None \<Rightarrow> get_secret_from_gcsm ''secret_country''
             | Some s \<Rightarrow> if s = [] then get_secret_from_gcsm ''secret_country'' else s)"

text \<open>
  What an observer sees of a yielded batch when the country of the record with id "3" is
  hidden: every other record whole, and that record without its \<open>country\<close> field.
\<close>

definition hide_secret_field :: "pydict \<Rightarrow> pydict" where
  "hide_secret_field r =
     (if map_of r ''id'' = Some (PStr ''3'') then filter (\<lambda>kv. fst kv \<noteq> ''country'') r else r)"

definition public_view :: "pydict list list \<Rightarrow> pydict list list" where
  "public_view items = map (map hide_secret_field) items"

section \<open>The \<open>person\<close> generator yields ten complete records\<close>

lemma choice_nonempty:
  "seq \<noteq> [] \<Longrightarrow> choice rt i seq = Inr (seq ! (randbelow rt i (length seq) mod length seq))"
  by (simp add: choice_def)

lemma person_record_Inr:
  "person_record rt upd i =
     Inr [(''id'', PInt i),
          (''name'', PStr (fake_name rt i)),
          (''country'', PStr (projr (choice rt i [''USA'', ''China'', ''Poland'']))),
          (''updated_at'',
             PDatetime (if i \<in> set upd then now_utc rt i else Datetime 2024 1 1 0 0 0 0))]"
  by (simp add: person_record_def choice_def)

lemma person_loop_Inr:
  "person_loop rt upd ids = Inr (map (\<lambda>i. projr (person_record rt upd i)) ids)"
  by (induction ids) (simp_all add: person_record_Inr)

lemma upto_0_9: "[0..9] = [0, 1, 2, 3, 4, 5, 6, 7, 8, 9::int]"
  by code_simp

lemma range_py_n_users: "range_py n_users = [0, 1, 2, 3, 4, 5, 6, 7, 8, 9]"
  by (simp add: range_py_def n_users_def upto_0_9)

lemma sample_n_users:
  "sample rt (range_py n_users) 2 = Inr (sample_result rt (range_py n_users) 2)"
  by (simp add: sample_def range_py_n_users)

lemma person_Inr:
  "person rt =
     Inr (map (\<lambda>i. projr (person_record rt (sample_result rt (range_py n_users) 2) i))
            (range_py n_users))"
  by (simp add: person_def Let_def sample_n_users person_loop_Inr)

text \<open>
  C9: every invocation of the \<open>person\<close> generator yields exactly \<open>n_users = 10\<close> records,
  with the ids 0 to 9 in increasing order, and every record has exactly the four fields
  id, name, country and updated_at, in this order; so no yielded record lacks the primary
  key or the cursor field that the notebook configures. This holds whatever the random
  sample, the fake names, the random choices and the clock are.
\<close>

theorem person_yields_ten_complete_records:
  "\<exists>rs. person rt = Inr rs
      \<and> n_users = 10
      \<and> int (length rs) = n_users
      \<and> map (\<lambda>r. map_of r ''id'') rs
          = map (\<lambda>i. Some (PInt i)) [0, 1, 2, 3, 4, 5, 6, 7, 8, 9]
      \<and> map (map fst) rs = replicate 10 [''id'', ''name'', ''country'', ''updated_at'']
      \<and> filter (\<lambda>r. map_of r primary_key = None) rs = []
      \<and> filter (\<lambda>r. map_of r cursor_path = None) rs = []"
proof -
  let ?upd = "sample_result rt (range_py n_users) 2"
  let ?rs = "map (\<lambda>i. projr (person_record rt ?upd i)) (range_py n_users)"
  have run: "person rt = Inr ?rs"
    by (rule person_Inr)
  have n: "n_users = 10"
    by (simp add: n_users_def)
  have len: "int (length ?rs) = n_users"
    unfolding range_py_n_users by (simp add: n_users_def)
  have ids: "map (\<lambda>r. map_of r ''id'') ?rs
               = map (\<lambda>i. Some (PInt i)) [0, 1, 2, 3, 4, 5, 6, 7, 8, 9]"
    by (simp add: range_py_n_users person_record_Inr)
  have fields: "map (map fst) ?rs = replicate 10 [''id'', ''name'', ''country'', ''updated_at'']"
    by (simp add: range_py_n_users person_record_Inr numeral_eq_Suc)
  have pk: "filter (\<lambda>r. map_of r primary_key = None) ?rs = []"
    by (simp add: range_py_n_users person_record_Inr primary_key_def)
  have cur: "filter (\<lambda>r. map_of r cursor_path = None) ?rs = []"
    by (simp add: range_py_n_users person_record_Inr cursor_path_def)
  from run n len ids fields pk cur show ?thesis
    by blast
qed

section \<open>The secret reaches only the country of the record with id 3\<close>

lemma public_view_people:
  "public_view (people s) =
     [[[(''id'', PStr ''1''), (''name'', PStr ''Warren Buffet''), (''country'', PStr ''USA'')],
       [(''id'', PStr ''2''), (''name'', PStr ''Jack Ma''), (''country'', PStr ''China'')],
       [(''id'', PStr ''3''), (''name'', PStr ''Rafal Brzoska'')]]]"
  by (simp add: public_view_def people_def hide_secret_field_def)

lemma people_gcsm_public_view:
  "public_view (people_gcsm s1) = public_view (people_gcsm s2)"
  by (simp add: people_gcsm_def public_view_people)

text \<open>
  C10: for any two values of the injected secret, the \<open>people\<close> resource yields one batch
  of three records each time; the records with id "1" and id "2" are the same in both
  runs, the third records are the ones with id "3" and hold the secret as their country,
  and the two batches are equal once the country of the record with id "3" is hidden.
\<close>

theorem people_secret_noninterference:
  "length (concat (people s1)) = 3
   \<and> length (concat (people s2)) = 3
   \<and> concat (people s1) ! 0 = concat (people s2) ! 0
   \<and> concat (people s1) ! 1 = concat (people s2) ! 1
   \<and> map (\<lambda>r. map_of r ''id'') (concat (people s1)) = [Some (PStr ''1''), Some (PStr ''2''), Some (PStr ''3'')]
   \<and> map (\<lambda>r. map_of r ''id'') (concat (people s2)) = [Some (PStr ''1''), Some (PStr ''2''), Some (PStr ''3'')]
   \<and> map_of (concat (people s1) ! 2) ''country'' = Some (PStr s1)
   \<and> map_of (concat (people s2) ! 2) ''country'' = Some (PStr s2)
   \<and> public_view (people s1) = public_view (people s2)"
  by (simp add: public_view_people) (simp add: people_def)

text \<open>
  The theorem at two concrete secrets: the first two records agree and the public views
  agree, while the batches themselves differ.
\<close>

theorem people_secret_noninterference_witness:
  "concat (people ''Poland'') ! 0 = concat (people ''Germany'') ! 0
   \<and> concat (people ''Poland'') ! 1 = concat (people ''Germany'') ! 1
   \<and> public_view (people ''Poland'') = public_view (people ''Germany'')
   \<and> people ''Poland'' \<noteq> people ''Germany''"
  using people_secret_noninterference [of "''Poland''" "''Germany''"]
  by (simp add: people_def)

end
